theory Spec2Isabelle
  imports Main "HOL-Library.Char_ord" "HOL-Library.List_Lexorder" "HOL-Library.Product_Lexorder"
    "HOL-Library.Sublist"
begin

section \<open>Data model\<close>

text \<open>
  Python \<open>str\<close> values are modelled as \<open>string\<close>: a list of 8-bit characters holding
  the UTF-8 encoding of the text. ASCII text is character for character the Python
  string; a character beyond ASCII is the sequence of its UTF-8 bytes (substring tests
  and lexicographic comparison agree with Python's on code points under this encoding).

  A value read by \<open>json.load\<close> is a \<open>json\<close>. A number is kept as the text that
  \<open>json.dumps\<close> prints for it; an object is the list of the items of the parsed
  \<open>dict\<close>, in insertion order.
\<close>

datatype json =
    JNull
  | JBool bool
  | JNum string
  | JStr string
  | JArr "json list"
  | JObj "(string \<times> json) list"

text \<open>
  A Python \<open>dict\<close> with string keys: the items in insertion order. \<open>dict_get\<close> is
  \<open>d.get(k)\<close>, \<open>dict_set\<close> is \<open>d[k] = v\<close> (an existing key keeps its position).
\<close>

type_synonym 'v dict = "(string \<times> 'v) list"

definition dict_get :: "'v dict \<Rightarrow> string \<Rightarrow> 'v option" where
  "dict_get d k = map_of d k"

fun dict_set :: "'v dict \<Rightarrow> string \<Rightarrow> 'v \<Rightarrow> 'v dict" where
  "dict_set [] k v = [(k, v)]"
| "dict_set ((k', v') # d) k v =
     (if k' = k then (k', v) # d else (k', v') # dict_set d k v)"

text \<open>
  A parsed slot (the \<open>dict\<close> appended to \<open>results\<close> in \<open>fetch_parsed_with_page\<close>, and
  whatever \<open>fetch_parsed_impl\<close> returns): a key that is absent or \<open>None\<close> is \<open>None\<close>;
  \<open>attrs\<close> is the attribute dict, empty when the key is absent.
\<close>

record slot =
  date :: "string option"
  time :: "string option"
  status :: "string option"
  raw_text :: "string option"
  attrs :: "string dict"

section \<open>Serialising keys: \<open>json.dumps(..., ensure_ascii=False)\<close>\<close>

definition hex_digit :: "nat \<Rightarrow> char" where
  "hex_digit n = ''0123456789abcdef'' ! (n mod 16)"

text \<open>
  The escape table of the JSON encoder with \<open>ensure_ascii=False\<close>: backslash, the
  double quote and the control characters below 0x20 are escaped, everything else is
  copied.
\<close>

definition escape_char :: "char \<Rightarrow> string" where
  "escape_char c =
     (if c = CHR 0x5C then [CHR 0x5C, CHR 0x5C]
      else if c = CHR 0x22 then [CHR 0x5C, CHR 0x22]
      else if c = CHR 0x08 then [CHR 0x5C, CHR ''b'']
      else if c = CHR 0x0C then [CHR 0x5C, CHR ''f'']
      else if c = CHR 0x0A then [CHR 0x5C, CHR ''n'']
      else if c = CHR 0x0D then [CHR 0x5C, CHR ''r'']
      else if c = CHR 0x09 then [CHR 0x5C, CHR ''t'']
      else if (of_char c :: nat) < 0x20
        then [CHR 0x5C, CHR ''u'', CHR ''0'', CHR ''0'',
              hex_digit ((of_char c :: nat) div 16), hex_digit (of_char c)]
      else [c])"

definition dumps_str :: "string \<Rightarrow> string" where
  "dumps_str s = [CHR 0x22] @ concat (map escape_char s) @ [CHR 0x22]"

fun join :: "string \<Rightarrow> string list \<Rightarrow> string" where
  "join sep [] = []"
| "join sep [x] = x"
| "join sep (x # y # ys) = x @ sep @ join sep (y # ys)"

fun json_dumps :: "json \<Rightarrow> string" where
  "json_dumps JNull = ''null''"
| "json_dumps (JBool b) = (if b then ''true'' else ''false'')"
| "json_dumps (JNum n) = n"
| "json_dumps (JStr s) = dumps_str s"
| "json_dumps (JArr xs) = ''['' @ join '', '' (map json_dumps xs) @ '']''"
| "json_dumps (JObj kvs) =
     ''{'' @ join '', '' (map (\<lambda>(k, v). dumps_str k @ '': '' @ json_dumps v) kvs) @ ''}''"

text \<open>\<open>_slot_key\<close>: the tuple that identifies a slot.\<close>

type_synonym slot_key = "string option \<times> string option \<times> string option \<times> string option"

definition slot_key :: "slot \<Rightarrow> slot_key" where
  "slot_key item =
     (date item, time item, dict_get (attrs item) ''service_cd'',
      dict_get (attrs item) ''start_raw'')"

definition json_of_opt :: "string option \<Rightarrow> json" where
  "json_of_opt x = (case x of None \<Rightarrow> JNull | Some s \<Rightarrow> JStr s)"

text \<open>
  \<open>_key_to_str\<close>: \<open>json.dumps(list(key_tuple), ensure_ascii=False)\<close>. The fallback
  of the \<open>except\<close> branch is never taken for a tuple of strings and \<open>None\<close>.
\<close>

definition key_to_str :: "slot_key \<Rightarrow> string" where
  "key_to_str key_tuple =
     (case key_tuple of (d, t, cd, sr) \<Rightarrow> json_dumps (JArr (map json_of_opt [d, t, cd, sr])))"

section \<open>The diff step of a notification cycle\<close>

text \<open>\<open>(c.get('status') or '')\<close>\<close>

definition current_status :: "slot \<Rightarrow> string" where
  "current_status c = (case status c of None \<Rightarrow> [] | Some s \<Rightarrow> s)"

text \<open>
  The inner loop \<open>for c in items\<close> of \<open>notify_once_for_starts\<close> (and of
  \<open>notify_once_with_page\<close>, which has the same body): \<open>prev\<close> is the state as loaded and
  is only read; \<open>produced\<close> and \<open>new_notified\<close> are the two accumulators.
\<close>

fun diff_items :: "json dict \<Rightarrow> slot list \<Rightarrow> slot list \<times> json dict \<Rightarrow> slot list \<times> json dict" where
  "diff_items prev [] acc = acc"
| "diff_items prev (c # items) (produced, new_notified) =
     (let key_str = key_to_str (slot_key c);
          cur = current_status c;
          prev_status = dict_get prev key_str;
          produced' =
            (if cur \<noteq> ''full''
             then (if prev_status \<noteq> Some (JStr cur) then produced @ [c] else produced)
             else produced)
      in diff_items prev items (produced', dict_set new_notified key_str (JStr cur)))"

text \<open>
  The outer loop \<open>for s in starts\<close>: \<open>fetch s\<close> is the result of
  \<open>fetch_parsed_impl(s)\<close>, \<open>None\<close> when it raises (the start is then skipped).
\<close>

fun diff_starts ::
  "(string \<Rightarrow> slot list option) \<Rightarrow> json dict \<Rightarrow> string list \<Rightarrow>
   slot list \<times> json dict \<Rightarrow> slot list \<times> json dict" where
  "diff_starts fetch prev [] acc = acc"
| "diff_starts fetch prev (s # starts) acc =
     (case fetch s of
        None \<Rightarrow> diff_starts fetch prev starts acc
      | Some items \<Rightarrow> diff_starts fetch prev starts (diff_items prev items acc))"

text \<open>The records observed in a cycle, in the order the loops visit them.\<close>

fun observed :: "(string \<Rightarrow> slot list option) \<Rightarrow> string list \<Rightarrow> slot list" where
  "observed fetch [] = []"
| "observed fetch (s # starts) =
     (case fetch s of None \<Rightarrow> [] | Some items \<Rightarrow> items) @ observed fetch starts"

text \<open>The decision the specification gives for one record against the previous state.\<close>

definition notifiable :: "json dict \<Rightarrow> slot \<Rightarrow> bool" where
  "notifiable prev c \<longleftrightarrow>
     current_status c \<noteq> ''full'' \<and>
     dict_get prev (key_to_str (slot_key c)) \<noteq> Some (JStr (current_status c))"

section \<open>The environment of a dispatch\<close>

text \<open>
  Everything a call of \<open>send_email\<close> or \<open>send_line\<close> reads from outside the program:
  the process environment, whether \<open>import httpx\<close> works, what each provider answers,
  and the clock. An HTTP call either returns a response (status code and body) or raises
  (\<open>Exc\<close> carries \<open>str(e)\<close>); the SMTP conversation either completes or raises.
  \<open>message_error\<close> is the exception, if any, raised while the \<open>EmailMessage\<close> is built
  from the subject, sender, recipients and body. \<open>line_post i t\<close> is the answer to the
  request for the token \<open>t\<close> at position \<open>i\<close> of the token list. The clock is read
  once for a call: the entries that one call writes carry the same time stamp.
\<close>

datatype reply = Resp int string | Exc string

record world =
  environ :: "string \<Rightarrow> string option"
  httpx_import :: "string option"
  sendgrid_post :: reply
  mailgun_post :: reply
  message_error :: "string option"
  smtp_send :: "string option"
  line_post :: "nat \<Rightarrow> string \<Rightarrow> reply"
  utcnow :: string

text \<open>The requests that leave the process, in the order they are made.\<close>

datatype provider = SendGrid | Mailgun | Smtp

datatype request =
    Email provider "string list" string string
  | Line string string

text \<open>
  An entry of \<open>notifications.jsonl\<close> (the audit log). A field is \<open>None\<close> when the entry
  has no such key or holds \<open>None\<close> there.
\<close>

record audit =
  a_ts :: string
  a_method :: string
  a_recipients :: "string list option"
  a_tokens :: "string list option"
  a_subject :: "string option"
  a_message :: "string option"
  a_status :: string
  a_detail :: string

text \<open>
  A line written to \<open>notification.log\<close> (the free-text log), kept as the values that
  the format string interpolates.
\<close>

datatype log_line =
    SendGridSendFailed int string string "string list"
  | SendGridException string string "string list"
  | MailgunSendFailed int string string "string list"
  | MailgunException string string "string list"
  | SMTPSendFailed string string "string list"
  | DryRunSend string "string list" string
  | DryRunLineSend string
  | LineHttpxNotAvailable string string
  | LineSendFailed int string string string
  | LineException string string string

text \<open>
  The files the program reads and writes, and the trace of requests. Writes to the two
  logs and to the state file are taken to succeed (\<open>_append_history\<close> and
  \<open>_save_notified\<close> swallow a failure of theirs; the writes to \<open>notification.log\<close> are
  not guarded in the source). \<open>recipients_txt\<close> is the list of lines of
  \<open>recipients.txt\<close>, \<open>None\<close> when the file does not exist; \<open>notified_json\<close> is
  the parsed content of the state file, \<open>None\<close> when opening or parsing it raises.
\<close>

record state =
  recipients_txt :: "string list option"
  notified_json :: "json option"
  notification_log :: "log_line list"
  history :: "audit list"
  requests :: "request list"

definition append_history :: "audit \<Rightarrow> state \<Rightarrow> state" where
  "append_history entry st = st\<lparr>history := history st @ [entry]\<rparr>"

definition write_log :: "log_line \<Rightarrow> state \<Rightarrow> state" where
  "write_log l st = st\<lparr>notification_log := notification_log st @ [l]\<rparr>"

definition do_request :: "request \<Rightarrow> state \<Rightarrow> state" where
  "do_request r st = st\<lparr>requests := requests st @ [r]\<rparr>"

section \<open>Python helpers\<close>

text \<open>Truthiness of \<open>os.environ.get(k)\<close>: set and not empty.\<close>

definition truthy :: "string option \<Rightarrow> bool" where
  "truthy x = (case x of None \<Rightarrow> False | Some s \<Rightarrow> s \<noteq> [])"

definition digit_char :: "nat \<Rightarrow> char" where
  "digit_char n = ''0123456789'' ! (n mod 10)"

function str_nat :: "nat \<Rightarrow> string" where
  "str_nat n = (if n < 10 then [digit_char n] else str_nat (n div 10) @ [digit_char n])"
  by pat_completeness auto
termination
  by (relation "measure id") auto

definition str_int :: "int \<Rightarrow> string" where
  "str_int i = (if i < 0 then ''-'' @ str_nat (nat (- i)) else str_nat (nat i))"

text \<open>
  \<open>int(s)\<close> on ASCII text: surrounding white space is dropped, a sign may follow, then
  decimal digits in groups separated by single underscores. \<open>None\<close> is the
  \<open>ValueError\<close>.
\<close>

definition is_space :: "char \<Rightarrow> bool" where
  "is_space c \<longleftrightarrow> c \<in> set [CHR 0x20, CHR 0x09, CHR 0x0A, CHR 0x0B, CHR 0x0C, CHR 0x0D]"

definition is_digit :: "char \<Rightarrow> bool" where
  "is_digit c \<longleftrightarrow> CHR ''0'' \<le> c \<and> c \<le> CHR ''9''"

definition digit_val :: "char \<Rightarrow> int" where
  "digit_val c = int (of_char c) - 48"

definition int_strip :: "string \<Rightarrow> string" where
  "int_strip s = rev (dropWhile is_space (rev (dropWhile is_space s)))"

fun digits_value :: "bool \<Rightarrow> int \<Rightarrow> string \<Rightarrow> int option" where
  "digits_value after_digit acc [] = (if after_digit then Some acc else None)"
| "digits_value after_digit acc (c # cs) =
     (if is_digit c then digits_value True (acc * 10 + digit_val c) cs
      else if c = CHR ''_'' \<and> after_digit then digits_value False acc cs
      else None)"

definition py_int :: "string \<Rightarrow> int option" where
  "py_int s =
     (case int_strip s of
        [] \<Rightarrow> None
      | c # cs \<Rightarrow>
          if c = CHR ''-'' then map_option uminus (digits_value False 0 cs)
          else if c = CHR ''+'' then digits_value False 0 cs
          else digits_value False 0 (c # cs))"

section \<open>Broadcast delivery: \<open>send_email\<close>\<close>

datatype error = ValueError | MessageError string

definition email_entry :: "world \<Rightarrow> string \<Rightarrow> string list \<Rightarrow> string \<Rightarrow> string \<Rightarrow> string \<Rightarrow> audit" where
  "email_entry w meth recipients subject stat det =
     \<lparr>a_ts = utcnow w, a_method = meth, a_recipients = Some recipients, a_tokens = None,
      a_subject = Some subject, a_message = None, a_status = stat, a_detail = det\<rparr>"

definition status_ok :: "int \<Rightarrow> bool" where
  "status_ok code \<longleftrightarrow> code = 200 \<or> code = 202"

text \<open>
  One HTTP provider block of \<open>send_email\<close> (the SendGrid and the Mailgun blocks have the
  same shape). The result is \<open>Some b\<close> when the block returns \<open>b\<close> from \<open>send_email\<close>
  and \<open>None\<close> when control falls through to the next block: that happens only in the
  \<open>except\<close> branch, which writes a line to the text log and no audit entry.
\<close>

definition http_block ::
  "world \<Rightarrow> provider \<Rightarrow> string \<Rightarrow> reply \<Rightarrow>
   (int \<Rightarrow> string \<Rightarrow> string \<Rightarrow> string list \<Rightarrow> log_line) \<Rightarrow>
   (string \<Rightarrow> string \<Rightarrow> string list \<Rightarrow> log_line) \<Rightarrow>
   string \<Rightarrow> string \<Rightarrow> string list \<Rightarrow> state \<Rightarrow> bool option \<times> state" where
  "http_block w p meth answer failed_line exc_line subject body recipients st =
     (case httpx_import w of
        Some e \<Rightarrow> (None, write_log (exc_line e subject recipients) st)
      | None \<Rightarrow>
          (let st1 = do_request (Email p recipients subject body) st in
           case answer of
             Exc e \<Rightarrow> (None, write_log (exc_line e subject recipients) st1)
           | Resp code text \<Rightarrow>
               if status_ok code
               then (Some True,
                     append_history
                       (email_entry w meth recipients subject ''success''
                          (''status='' @ str_int code)) st1)
               else (Some False,
                     append_history
                       (email_entry w meth recipients subject ''failed''
                          (''status='' @ str_int code @ '' body='' @ text))
                       (write_log (failed_line code text subject recipients) st1))))"

text \<open>
  \<open>smtp_port = int(os.environ.get('SMTP_PORT', '0')) if os.environ.get('SMTP_PORT') else None\<close>:
  \<open>Inl ValueError\<close> when the variable is set, not empty and not a number.
\<close>

definition smtp_port :: "world \<Rightarrow> error + int option" where
  "smtp_port w =
     (if truthy (environ w ''SMTP_PORT'')
      then (case py_int (the (environ w ''SMTP_PORT'')) of
              None \<Rightarrow> Inl ValueError
            | Some n \<Rightarrow> Inr (Some n))
      else Inr None)"

definition sendgrid_configured :: "world \<Rightarrow> bool" where
  "sendgrid_configured w \<longleftrightarrow> truthy (environ w ''SENDGRID_API_KEY'')"

definition mailgun_configured :: "world \<Rightarrow> bool" where
  "mailgun_configured w \<longleftrightarrow>
     truthy (environ w ''MAILGUN_API_KEY'') \<and> truthy (environ w ''MAILGUN_DOMAIN'')"

text \<open>
  The SMTP block and the dry run after it (steps 3 and 4 of \<open>send_email\<close>). The port is
  parsed and the message is built before the test \<open>if smtp_host and smtp_port\<close>, outside
  any \<open>try\<close>.
\<close>

definition smtp_or_dry_run ::
  "world \<Rightarrow> string \<Rightarrow> string \<Rightarrow> string list \<Rightarrow> state \<Rightarrow> (error + bool) \<times> state" where
  "smtp_or_dry_run w subject body recipients st =
     (case smtp_port w of
        Inl e \<Rightarrow> (Inl e, st)
      | Inr port \<Rightarrow>
          (case message_error w of
             Some e \<Rightarrow> (Inl (MessageError e), st)
           | None \<Rightarrow>
               if truthy (environ w ''SMTP_HOST'') \<and> port \<noteq> None \<and> port \<noteq> Some 0
               then
                 (let st1 = do_request (Email Smtp recipients subject body) st in
                  case smtp_send w of
                    None \<Rightarrow>
                      (Inr True,
                       append_history
                         (email_entry w ''smtp'' recipients subject ''success''
                            (the (environ w ''SMTP_HOST'') @ '':'' @ str_int (the port))) st1)
                  | Some e \<Rightarrow>
                      (Inr False,
                       append_history
                         (email_entry w ''smtp'' recipients subject ''failed'' e)
                         (write_log (SMTPSendFailed e subject recipients) st1)))
               else
                 (Inr False,
                  append_history
                    (email_entry w ''dry-run'' recipients subject ''dry-run'' [])
                    (write_log (DryRunSend subject recipients body) st))))"

text \<open>Steps 1 and 2: the block runs when its provider is configured.\<close>

definition sendgrid_block ::
  "world \<Rightarrow> string \<Rightarrow> string \<Rightarrow> string list \<Rightarrow> state \<Rightarrow> bool option \<times> state" where
  "sendgrid_block w subject body recipients st =
     (if sendgrid_configured w
      then http_block w SendGrid ''sendgrid'' (sendgrid_post w)
             SendGridSendFailed SendGridException subject body recipients st
      else (None, st))"

definition mailgun_block ::
  "world \<Rightarrow> string \<Rightarrow> string \<Rightarrow> string list \<Rightarrow> state \<Rightarrow> bool option \<times> state" where
  "mailgun_block w subject body recipients st =
     (if mailgun_configured w
      then http_block w Mailgun ''mailgun'' (mailgun_post w)
             MailgunSendFailed MailgunException subject body recipients st
      else (None, st))"

definition send_email ::
  "world \<Rightarrow> string \<Rightarrow> string \<Rightarrow> string list \<Rightarrow> state \<Rightarrow> (error + bool) \<times> state" where
  "send_email w subject body recipients st =
     (case sendgrid_block w subject body recipients st of
        (Some b, st1) \<Rightarrow> (Inr b, st1)
      | (None, st1) \<Rightarrow>
          (case mailgun_block w subject body recipients st1 of
             (Some b, st2) \<Rightarrow> (Inr b, st2)
           | (None, st2) \<Rightarrow> smtp_or_dry_run w subject body recipients st2))"

section \<open>Fan-out delivery: \<open>send_line\<close>\<close>




section \<open>The state store and the recipient list\<close>

text \<open>
  \<open>str.strip()\<close> on ASCII text: the white space of \<open>str\<close> also has the four
  separators 0x1C to 0x1F.
\<close>

definition is_whitespace :: "char \<Rightarrow> bool" where
  "is_whitespace c \<longleftrightarrow>
     is_space c \<or> c \<in> set [CHR 0x1C, CHR 0x1D, CHR 0x1E, CHR 0x1F]"

definition str_strip :: "string \<Rightarrow> string" where
  "str_strip s = rev (dropWhile is_whitespace (rev (dropWhile is_whitespace s)))"

text \<open>\<open>_read_recipients\<close>: the stripped lines that are not empty and do not start with \<open>#\<close>.\<close>

definition read_recipients :: "state \<Rightarrow> string list" where
  "read_recipients st =
     (case recipients_txt st of
        None \<Rightarrow> []
      | Some ls \<Rightarrow> filter (\<lambda>l. l \<noteq> [] \<and> take 1 l \<noteq> ''#'') (map str_strip ls))"

text \<open>
  The \<open>dict\<close> that \<open>json.load\<close> builds from the members of an object: a repeated
  key keeps its first position and its last value.
\<close>

definition dict_of_pairs :: "(string \<times> 'v) list \<Rightarrow> 'v dict" where
  "dict_of_pairs kvs = foldl (\<lambda>d (k, v). dict_set d k v) [] kvs"

text \<open>
  \<open>list(item)\<close> on a parsed value: the elements of a list, the characters of a
  string (of an ASCII string, in this model of text), the keys of a dict; \<open>None\<close> is
  the \<open>TypeError\<close> for the other values.
\<close>

fun py_list :: "json \<Rightarrow> json list option" where
  "py_list (JArr xs) = Some xs"
| "py_list (JStr s) = Some (map (\<lambda>c. JStr [c]) s)"
| "py_list (JObj kvs) = Some (map (\<lambda>kv. JStr (fst kv)) (dict_of_pairs kvs))"
| "py_list v = None"

definition legacy_key :: "json \<Rightarrow> string" where
  "legacy_key item =
     (case py_list item of
        Some xs \<Rightarrow> json_dumps (JArr xs)
      | None \<Rightarrow> json_dumps item)"

text \<open>
  \<open>_load_notified\<close>: a dict is returned as it is; a list (the old format) is
  converted, every entry getting the status \<open>notified\<close>; anything else, and any
  exception, gives the empty dict.
\<close>

definition load_notified :: "state \<Rightarrow> json dict" where
  "load_notified st =
     (case notified_json st of
        None \<Rightarrow> []
      | Some (JObj kvs) \<Rightarrow> dict_of_pairs kvs
      | Some (JArr items) \<Rightarrow>
          foldl (\<lambda>out item. dict_set out (legacy_key item) (JStr ''notified'')) [] items
      | Some _ \<Rightarrow> [])"

definition save_notified :: "json dict \<Rightarrow> state \<Rightarrow> state" where
  "save_notified d st = st\<lparr>notified_json := Some (JObj d)\<rparr>"

section \<open>A notification cycle: \<open>notify_once_for_starts\<close>\<close>

text \<open>\<open>f"{x}"\<close> for an optional string: \<open>None\<close> prints as \<open>None\<close>.\<close>

definition fmt :: "string option \<Rightarrow> string" where
  "fmt x = (case x of None \<Rightarrow> ''None'' | Some s \<Rightarrow> s)"

definition subject_of :: "slot list \<Rightarrow> string" where
  "subject_of produced =
     [CHR 0xE4, CHR 0xBA, CHR 0x88, CHR 0xE7, CHR 0xB4, CHR 0x84, CHR 0xE6, CHR 0x9E, CHR 0xA0,
      CHR 0xE3, CHR 0x81, CHR 0xAE, CHR 0xE7, CHR 0xA9, CHR 0xBA, CHR 0xE3, CHR 0x81, CHR 0x8D,
      CHR 0xE5, CHR 0x80, CHR 0x99, CHR 0xE8, CHR 0xA3, CHR 0x9C, CHR 0xE3, CHR 0x81, CHR 0x8C,
      CHR 0xE8, CHR 0xA6, CHR 0x8B, CHR 0xE3, CHR 0x81, CHR 0xA4, CHR 0xE3, CHR 0x81, CHR 0x8B,
      CHR 0xE3, CHR 0x82, CHR 0x8A, CHR 0xE3, CHR 0x81, CHR 0xBE, CHR 0xE3, CHR 0x81, CHR 0x97,
      CHR 0xE3, CHR 0x81, CHR 0x9F, CHR 0x20, CHR 0x28]
     @ str_nat (length produced) @ [CHR 0xE4, CHR 0xBB, CHR 0xB6, CHR 0x29]"

definition body_line :: "slot \<Rightarrow> string" where
  "body_line p =
     fmt (date p) @ '' '' @ fmt (time p) @ ''  status='' @ fmt (status p)
     @ '' service_cd='' @ fmt (dict_get (attrs p) ''service_cd'')
     @ [CHR 0x0A] @ ''  text='' @ fmt (raw_text p) @ [CHR 0x0A]"

definition body_of :: "slot list \<Rightarrow> string" where
  "body_of produced = join [CHR 0x0A] (map body_line produced)"

record summary =
  new_count :: nat
  notified :: "slot_key list"
  recipients :: "string list"

text \<open>
  The cycle. The result of \<open>send_email\<close> is discarded; an exception that leaves
  \<open>send_email\<close> leaves the cycle too, before \<open>_save_notified\<close> is reached.
\<close>

definition notify_once_for_starts ::
  "world \<Rightarrow> (string \<Rightarrow> slot list option) \<Rightarrow> string list \<Rightarrow> state \<Rightarrow> (error + summary) \<times> state" where
  "notify_once_for_starts w fetch starts st =
     (let recips = read_recipients st;
          prev = load_notified st;
          (produced, new_notified) = diff_starts fetch prev starts ([], prev)
      in case (if produced \<noteq> [] \<and> recips \<noteq> []
               then send_email w (subject_of produced) (body_of produced) recips st
               else (Inr False, st)) of
           (Inl e, st1) \<Rightarrow> (Inl e, st1)
         | (Inr sent, st1) \<Rightarrow>
             (Inr \<lparr>new_count = length produced, notified = map slot_key produced,
                   recipients = recips\<rparr>,
              save_notified new_notified st1))"

section \<open>The normalizer: post-processing in \<open>fetch_parsed_with_page\<close>\<close>

text \<open>
  An element of the list that the page script returns: every field is a string
  (a missing or empty field is the empty string, as \<open>item.get(k) or ''\<close> makes it).
\<close>

record raw_item =
  r_start :: string
  r_end :: string
  r_service_cd :: string
  r_multi :: string
  r_icon_class :: string
  r_icon_color :: string
  r_bg :: string
  r_text :: string

definition digits_n :: "nat \<Rightarrow> string \<Rightarrow> bool" where
  "digits_n n s \<longleftrightarrow> length s = n \<and> list_all is_digit s"

definition is_sep :: "string \<Rightarrow> bool" where
  "is_sep s \<longleftrightarrow> s = ''/'' \<or> s = ''-''"

text \<open>
  The pattern \<open>(\d{4})[/-](\d{2})[/-](\d{2})[T\s]?(\d{2}):(\d{2})\<close> matched at the
  head of a string (ASCII digits and white space). The optional character is taken
  when it is there: it is no digit, so leaving it out cannot match.
\<close>

definition match_at :: "string \<Rightarrow> (string \<times> string \<times> string \<times> string \<times> string) option" where
  "match_at s =
     (let g1 = take 4 s; r1 = drop 4 s;
          sep1 = take 1 r1; r2 = drop 1 r1;
          g2 = take 2 r2; r3 = drop 2 r2;
          sep2 = take 1 r3; r4 = drop 1 r3;
          g3 = take 2 r4; r5 = drop 2 r4;
          r6 = (case r5 of
                  [] \<Rightarrow> r5
                | c # cs \<Rightarrow> if c = CHR ''T'' \<or> is_whitespace c then cs else r5);
          g4 = take 2 r6; r7 = drop 2 r6;
          colon = take 1 r7; g5 = take 2 (drop 1 r7)
      in if digits_n 4 g1 \<and> is_sep sep1 \<and> digits_n 2 g2 \<and> is_sep sep2 \<and> digits_n 2 g3
            \<and> digits_n 2 g4 \<and> colon = '':'' \<and> digits_n 2 g5
         then Some (g1, g2, g3, g4, g5) else None)"

text \<open>\<open>re.search\<close>: the match at the leftmost position that has one.\<close>

fun re_search :: "(string \<Rightarrow> 'a option) \<Rightarrow> string \<Rightarrow> 'a option" where
  "re_search m [] = m []"
| "re_search m (c # cs) = (case m (c # cs) of Some r \<Rightarrow> Some r | None \<Rightarrow> re_search m cs)"

text \<open>The second pattern, \<open>(\d{4}-\d{2}-\d{2})T?(\d{2}:\d{2})\<close>, tried when the first fails.\<close>

definition match_at2 :: "string \<Rightarrow> (string \<times> string) option" where
  "match_at2 s =
     (let g1 = take 10 s; r1 = drop 10 s;
          r2 = (case r1 of [] \<Rightarrow> r1 | c # cs \<Rightarrow> if c = CHR ''T'' then cs else r1);
          g2 = take 5 r2
      in if digits_n 4 (take 4 g1) \<and> take 1 (drop 4 g1) = ''-'' \<and> digits_n 2 (take 2 (drop 5 g1))
            \<and> take 1 (drop 7 g1) = ''-'' \<and> digits_n 2 (drop 8 g1)
            \<and> digits_n 2 (take 2 g2) \<and> take 1 (drop 2 g2) = '':'' \<and> digits_n 2 (drop 3 g2)
         then Some (g1, g2) else None)"

definition parse_start :: "string \<Rightarrow> string option \<times> string option" where
  "parse_start start_raw =
     (case re_search match_at start_raw of
        Some (g1, g2, g3, g4, g5) \<Rightarrow> (Some (g1 @ ''-'' @ g2 @ ''-'' @ g3), Some (g4 @ '':'' @ g5))
      | None \<Rightarrow>
          (case re_search match_at2 start_raw of
             Some (d, t) \<Rightarrow> (Some d, Some t)
           | None \<Rightarrow> (None, None)))"

text \<open>\<open>a in b\<close> on strings is \<open>sublist a b\<close>. The status of a slot:\<close>

definition classify :: "string \<Rightarrow> string \<Rightarrow> string \<Rightarrow> string \<Rightarrow> string" where
  "classify icon_class icon_color bg low_text =
     (if icon_class \<noteq> [] \<and> sublist ''fa-times'' icon_class then ''full''
      else if icon_color \<noteq> [] \<and>
              (sublist ''#f803'' icon_color \<or> sublist ''rgb(248'' icon_color
               \<or> sublist ''red'' icon_color) then ''full''
      else if bg \<noteq> [] \<and>
              (sublist ''#C0C0C0'' bg \<or> sublist ''rgb(192'' bg \<or> sublist ''gray'' bg)
        then ''full''
      else if sublist [CHR 0xE3, CHR 0x80, CHR 0x87] low_text
              \<or> sublist [CHR 0xE2, CHR 0x97, CHR 0x8B] low_text then ''available''
      else if icon_class \<noteq> [] \<and>
              (sublist ''fa-circle'' icon_class \<or> sublist ''fa-check'' icon_class)
        then ''available''
      else if sublist [CHR 0xE7, CHR 0xA0, CHR 0x82] low_text
              \<or> sublist [CHR 0xE7, CHR 0xA0, CHR 0x82, CHR 0xE6, CHR 0x99, CHR 0x82,
                          CHR 0xE8, CHR 0xA8, CHR 0x88] low_text
              \<or> (icon_class \<noteq> [] \<and> sublist ''hourglass'' icon_class) then ''not_started''
      else ''other'')"

text \<open>The body of the loop \<open>for item in data\<close>: one raw item to one slot.\<close>

definition parse_item :: "raw_item \<Rightarrow> slot" where
  "parse_item item =
     (let start_raw = str_strip (r_start item);
          end_raw = str_strip (r_end item);
          text = str_strip (r_text item);
          icon_class = str_strip (r_icon_class item);
          icon_color = str_strip (r_icon_color item);
          bg = str_strip (r_bg item);
          (d, t) = parse_start start_raw
      in \<lparr>date = d, time = t,
          status = Some (classify icon_class icon_color bg text),
          raw_text = Some text,
          attrs = [(''service_cd'', r_service_cd item), (''multi_edit_key'', r_multi item),
                   (''icon_class'', icon_class), (''icon_color'', icon_color), (''bg'', bg),
                   (''start_raw'', start_raw), (''end_raw'', end_raw)]\<rparr>)"








section \<open>The ordering the specification describes\<close>





section \<open>Vocabulary for the properties\<close>

text \<open>The serialised key of a record (\<open>key_str\<close> in the loop).\<close>

definition key_str :: "slot \<Rightarrow> string" where
  "key_str c = key_to_str (slot_key c)"

text \<open>
  The status of the last record with the key \<open>k\<close> among the observed records:
  the current observation of that key, \<open>None\<close> when the key was not observed.
\<close>

definition final_status :: "slot list \<Rightarrow> string \<Rightarrow> string option" where
  "final_status obs k =
     (if filter (\<lambda>c. key_str c = k) obs = [] then None
      else Some (current_status (last (filter (\<lambda>c. key_str c = k) obs))))"

section \<open>Concrete inputs\<close>

text \<open>
  A slot as the test script \<open>test_renotify.py\<close> builds it, and the same slot as the page
  script reports it (a circle icon makes it \<open>available\<close>, no signal at all \<open>other\<close>).
\<close>

definition make_item :: "string \<Rightarrow> slot" where
  "make_item s =
     \<lparr>date = Some ''2025-11-09'', time = Some ''09:00'', status = Some s,
      raw_text = Some (''status='' @ s),
      attrs = [(''service_cd'', ''test-service-cd-123''),
               (''start_raw'', ''2025/11/09 09:00:00'')]\<rparr>"


text \<open>A disk with one recipient and no state file, and empty logs.\<close>

definition fresh_state :: state where
  "fresh_state =
     \<lparr>recipients_txt = Some [''# Add one email per line'', ''ops@example.com''],
      notified_json = None, notification_log = [], history = [], requests = []\<rparr>"

text \<open>A process environment given as a list of variables, and a world around it.\<close>

definition world_of :: "(string \<times> string) list \<Rightarrow> reply \<Rightarrow> reply \<Rightarrow> world" where
  "world_of env sg mg =
     \<lparr>environ = map_of env, httpx_import = None, sendgrid_post = sg, mailgun_post = mg,
      message_error = None, smtp_send = None,
      line_post = (\<lambda>i t. Resp 200 []), utcnow = ''2025-11-08T00:00:00''\<rparr>"



text \<open>A renderer that reports the test slot with a given status for every start date.\<close>

definition one_slot_fetch :: "string \<Rightarrow> string \<Rightarrow> slot list option" where
  "one_slot_fetch s start = Some [make_item s]"

text \<open>No HTTP provider configured, and \<open>SMTP_PORT\<close> set to a text that is no number.\<close>

definition bad_port_world :: world where
  "bad_port_world = world_of [(''SMTP_PORT'', ''abc'')] (Exc []) (Exc [])"


section \<open>Vocabulary for the dispatcher properties\<close>



















section \<open>Vocabulary for the state store properties\<close>

text \<open>The status values that the normalizer assigns.\<close>

definition real_statuses :: "string set" where
  "real_statuses = {''available'', ''full'', ''not_started'', ''other''}"

text \<open>A key tuple as the old state file holds it: a JSON list of four strings or nulls.\<close>

definition key_json :: "slot_key \<Rightarrow> json" where
  "key_json key_tuple = (case key_tuple of (d, t, cd, sr) \<Rightarrow> JArr (map json_of_opt [d, t, cd, sr]))"

text \<open>An old state file that holds the key of the test slot.\<close>

definition legacy_state :: state where
  "legacy_state = fresh_state\<lparr>notified_json := Some (JArr [key_json (slot_key (make_item ''full''))])\<rparr>"

section \<open>Vocabulary for the normalizer properties\<close>




section \<open>Properties of the dict operations\<close>

lemma dict_get_set: "dict_get (dict_set d k v) k' = (if k' = k then Some v else dict_get d k')"
  by (induction d) (auto simp: dict_get_def)




section \<open>The diff step computes the specified decision\<close>

lemma diff_items_produced:
  "fst (diff_items prev items (produced, nn)) = produced @ filter (notifiable prev) items"
  by (induction items arbitrary: produced nn) (simp_all add: Let_def notifiable_def)

lemma diff_starts_produced:
  "fst (diff_starts fetch prev starts (produced, nn)) =
     produced @ filter (notifiable prev) (observed fetch starts)"
proof (induction starts arbitrary: produced nn)
  case Nil
  then show ?case by simp
next
  case (Cons s starts)
  show ?case
  proof (cases "fetch s")
    case None
    then show ?thesis using Cons by simp
  next
    case (Some items)
    obtain p n where pn: "diff_items prev items (produced, nn) = (p, n)"
      by (cases "diff_items prev items (produced, nn)")
    have "p = produced @ filter (notifiable prev) items"
      using diff_items_produced [of prev items produced nn] pn by simp
    then show ?thesis using Some pn Cons [of p n] by simp
  qed
qed

text \<open>
  Claim C1. In a poll cycle started from the previous state \<open>prev\<close>, the records the
  loop marks as notifiable (\<open>produced\<close>) are exactly, in order and with multiplicity,
  the observed records whose current status is not \<open>full\<close> and differs from the status
  that \<open>prev\<close> holds for their serialised slot key; a key without an entry in \<open>prev\<close>
  differs from every status.
\<close>

theorem produced_iff_notifiable:
  "fst (diff_starts fetch prev starts ([], prev)) = filter (notifiable prev) (observed fetch starts)
   \<and> (notifiable prev c \<longleftrightarrow>
        current_status c \<noteq> ''full'' \<and>
        (case dict_get prev (key_to_str (slot_key c)) of
           None \<Rightarrow> True
         | Some previous \<Rightarrow> previous \<noteq> JStr (current_status c)))"
  using diff_starts_produced [of fetch prev starts "[]" prev]
  by (simp add: notifiable_def split: option.split)

section \<open>The state after the diff step\<close>








section \<open>Loading, saving and what a dispatch leaves alone\<close>











lemma load_notified_recipients [simp]:
  "load_notified (st\<lparr>recipients_txt := r\<rparr>) = load_notified st"
  by (simp add: load_notified_def)

text \<open>What \<open>send_email\<close> leaves alone.\<close>

lemma http_block_files:
  "http_block w p meth answer fl el subject body recips st = (r, st') \<Longrightarrow>
   recipients_txt st' = recipients_txt st \<and> notified_json st' = notified_json st"
  by (auto simp: http_block_def Let_def write_log_def append_history_def do_request_def
           split: option.splits reply.splits if_splits)

lemma smtp_or_dry_run_files:
  "smtp_or_dry_run w subject body recips st = (r, st') \<Longrightarrow>
   recipients_txt st' = recipients_txt st \<and> notified_json st' = notified_json st"
  by (auto simp: smtp_or_dry_run_def Let_def write_log_def append_history_def do_request_def
           split: option.splits sum.splits if_splits)

lemma send_email_files:
  assumes "send_email w subject body recips st = (r, st')"
  shows "recipients_txt st' = recipients_txt st \<and> notified_json st' = notified_json st"
proof -
  obtain r1 st1 where b1: "sendgrid_block w subject body recips st = (r1, st1)"
    by (metis surj_pair)
  have f1: "recipients_txt st1 = recipients_txt st \<and> notified_json st1 = notified_json st"
    using b1 http_block_files by (auto simp: sendgrid_block_def split: if_splits)
  obtain r2 st2 where b2: "mailgun_block w subject body recips st1 = (r2, st2)"
    by (metis surj_pair)
  have f2: "recipients_txt st2 = recipients_txt st1 \<and> notified_json st2 = notified_json st1"
    using b2 http_block_files by (auto simp: mailgun_block_def split: if_splits)
  show ?thesis
  proof (cases r1)
    case (Some b)
    then show ?thesis using assms b1 f1 by (simp add: send_email_def)
  next
    case None
    note r1 = this
    show ?thesis
    proof (cases r2)
      case (Some b)
      then show ?thesis using assms b1 b2 r1 f1 f2 by (simp add: send_email_def)
    next
      case None
      then have "smtp_or_dry_run w subject body recips st2 = (r, st')"
        using assms b1 b2 r1 by (simp add: send_email_def)
      then show ?thesis using smtp_or_dry_run_files f1 f2 by metis
    qed
  qed
qed

section \<open>The cycle as a whole\<close>


lemma cycle_raises:
  assumes "notify_once_for_starts w fetch starts st = (Inl e, st')"
  shows "notified_json st' = notified_json st"
proof -
  let ?prev = "load_notified st"
  obtain produced nn where d: "diff_starts fetch ?prev starts ([], ?prev) = (produced, nn)"
    by (metis surj_pair)
  let ?send = "(if produced \<noteq> [] \<and> read_recipients st \<noteq> []
      then send_email w (subject_of produced) (body_of produced) (read_recipients st) st
      else (Inr False, st))"
  obtain r st1 where s: "?send = (r, st1)" by (metis surj_pair)
  have f: "notified_json st1 = notified_json st"
    using s send_email_files by (auto split: if_splits)
  from assms d s have "st' = st1"
    by (cases r) (simp_all add: notify_once_for_starts_def Let_def)
  then show ?thesis using f by simp
qed



section \<open>Persistence of the observed statuses\<close>

text \<open>
  Claim C2. Every key observed in a cycle should have its persisted entry set to the
  current observation, whatever the dispatch does. The cycle below has one recipient,
  one newly available slot, no HTTP provider and \<open>SMTP_PORT=abc\<close>: \<open>send_email\<close>
  raises \<open>ValueError\<close> at \<open>int(...)\<close>, the exception leaves the cycle, and the state
  file is never written: the observed key, whose current status is \<open>available\<close>, has
  no entry afterwards. (When the cycle returns, \<open>cycle_saves_current_status\<close> above
  gives the claimed entry for every key.)
\<close>

theorem non_numeric_port_skips_save:
  "notify_once_for_starts bad_port_world (one_slot_fetch ''available'') [''2025-11-09''] fresh_state
     = (Inl ValueError, fresh_state)
   \<and> read_recipients fresh_state = [''ops@example.com'']
   \<and> final_status (observed (one_slot_fetch ''available'') [''2025-11-09''])
        (key_str (make_item ''available'')) = Some ''available''
   \<and> dict_get (load_notified fresh_state) (key_str (make_item ''available'')) = None"
  by code_simp

section \<open>Running the diff step twice\<close>





section \<open>A cycle without recipients\<close>



section \<open>The provider chain\<close>


















section \<open>The fan-out loop\<close>





section \<open>Broadcast delivery: which providers are asked\<close>












section \<open>Broadcast delivery: the dry run\<close>





section \<open>Fan-out delivery\<close>







section \<open>The audit log\<close>













section \<open>Migration of the old state file\<close>

lemma classify_real: "classify icon_class icon_color bg low_text \<in> real_statuses"
  by (simp add: classify_def real_statuses_def)

lemma parse_item_status: "current_status (parse_item item) \<in> real_statuses"
  by (simp add: parse_item_def current_status_def Let_def classify_real split: prod.split)

lemma notified_not_real: "''notified'' \<notin> real_statuses"
  by (simp add: real_statuses_def)

lemma foldl_legacy_get:
  "dict_get (foldl (\<lambda>out item. dict_set out (legacy_key item) v) acc items) k =
     (if k \<in> legacy_key ` set items then Some v else dict_get acc k)"
  by (induction items arbitrary: acc) (auto simp: dict_get_set)

lemma load_legacy_get:
  "notified_json st = Some (JArr items) \<Longrightarrow>
   dict_get (load_notified st) k =
     (if k \<in> legacy_key ` set items then Some (JStr ''notified'') else None)"
  by (simp add: load_notified_def foldl_legacy_get) (simp add: dict_get_def)

lemma legacy_key_of_key: "legacy_key (key_json k) = key_to_str k"
  by (cases k) (simp add: legacy_key_def key_json_def key_to_str_def)

text \<open>
  Claim C7. Loading a state file of the old shape gives a mapping whose keys are the
  serialised entries of the list and whose every value is the placeholder
  \<open>notified\<close>. The placeholder is none of the four status values, which are the only
  ones the normalizer assigns. The key of a slot that the old file lists is found
  again under the serialisation the cycle uses, and a record whose status is
  \<open>available\<close> is notifiable against the migrated state.
\<close>

theorem legacy_migration:
  assumes "notified_json st = Some (JArr items)"
  shows "(\<forall>k v. dict_get (load_notified st) k = Some v \<longrightarrow> v = JStr ''notified'')
       \<and> (\<forall>k. dict_get (load_notified st) k \<noteq> None \<longleftrightarrow> k \<in> legacy_key ` set items)
       \<and> ''notified'' \<notin> real_statuses
       \<and> (\<forall>item. current_status (parse_item item) \<in> real_statuses)
       \<and> (\<forall>c. key_json (slot_key c) \<in> set items \<longrightarrow>
              dict_get (load_notified st) (key_str c) = Some (JStr ''notified''))
       \<and> (\<forall>c. current_status c \<in> real_statuses \<and> current_status c \<noteq> ''full'' \<longrightarrow>
              notifiable (load_notified st) c)"
proof -
  note g = load_legacy_get [OF assms]
  have 1: "\<forall>k v. dict_get (load_notified st) k = Some v \<longrightarrow> v = JStr ''notified''"
    by (simp add: g)
  have 2: "\<forall>k. dict_get (load_notified st) k \<noteq> None \<longleftrightarrow> k \<in> legacy_key ` set items"
    by (simp add: g)
  have 5: "\<forall>c. key_json (slot_key c) \<in> set items \<longrightarrow>
              dict_get (load_notified st) (key_str c) = Some (JStr ''notified'')"
  proof (intro allI impI)
    fix c assume "key_json (slot_key c) \<in> set items"
    then have "legacy_key (key_json (slot_key c)) \<in> legacy_key ` set items" by (rule imageI)
    then show "dict_get (load_notified st) (key_str c) = Some (JStr ''notified'')"
      by (simp add: g key_str_def legacy_key_of_key)
  qed
  have 6: "\<forall>c. current_status c \<in> real_statuses \<and> current_status c \<noteq> ''full'' \<longrightarrow>
              notifiable (load_notified st) c"
    using notified_not_real by (auto simp: notifiable_def g)
  from 1 2 notified_not_real parse_item_status 5 6 show ?thesis by blast
qed

theorem legacy_migration_witness:
  "notified_json legacy_state = Some (JArr [key_json (slot_key (make_item ''full''))])
   \<and> dict_get (load_notified legacy_state) (key_str (make_item ''available''))
       = Some (JStr ''notified'')
   \<and> notifiable (load_notified legacy_state) (make_item ''available'')"
proof -
  have h: "notified_json legacy_state = Some (JArr [key_json (slot_key (make_item ''full''))])"
    by code_simp
  have k: "key_json (slot_key (make_item ''available''))
      \<in> set [key_json (slot_key (make_item ''full''))]"
    by code_simp
  have s: "current_status (make_item ''available'') \<in> real_statuses
      \<and> current_status (make_item ''available'') \<noteq> ''full''"
    by code_simp
  from legacy_migration [OF h] k s h show ?thesis by blast
qed


section \<open>The normalizer\<close>
























end
